theory Spec2Isabelle
  imports Complex_Main
begin

section \<open>Python primitives\<close>

text \<open>
  What a handler can raise: an \<open>HTTPException\<close> with its status and detail, or one of the
  built-in exceptions that the arithmetic and the conversions raise.
\<close>

datatype detail = Message string | BillingFailure int string

datatype py_exception = HTTPException int detail | OverflowError | ValueError | TypeError

text \<open>
  A \<open>string\<close> stands for a Python \<open>str\<close>; equality, concatenation and the test for
  the empty string or for a leading \<open>3\<close> are those of \<open>string\<close>. The operations on \<open>str\<close>,
  \<open>int\<close> and \<open>float\<close> values whose results depend on Unicode tables, on IEEE rounding or
  on interpreter limits are parameters of the model; \<open>'f\<close> is the type of float values.
  Every theorem below that is stated for \<open>py\<close> holds for every choice of them.
  \<^item> \<open>str_lower\<close>, \<open>str_strip\<close>, \<open>str_isdigit\<close>, \<open>str_len\<close>: the methods \<open>lower\<close>, \<open>strip\<close>
    and \<open>isdigit\<close> of \<open>str\<close>, and \<open>len\<close>;
  \<^item> \<open>int_float_mul i x\<close>: the product of the int \<open>i\<close> and the float \<open>x\<close>, written in
    either order (\<open>i * x\<close> or \<open>x * i\<close>): the int is converted to a float, which raises
    \<open>OverflowError\<close> when it is too large, and the two floats are multiplied;
  \<^item> \<open>float_add\<close>: the sum of two floats; \<open>zero_add x\<close>: the sum \<open>0 + x\<close> of the int zero
    and a float;
  \<^item> \<open>float_to_int\<close>: \<open>int(x)\<close> of a float, which raises for an infinity or a NaN;
  \<^item> \<open>int_str\<close>: \<open>str(i)\<close> of an int, as used when an int is formatted into a string.
\<close>

record 'f python =
  str_lower :: "string \<Rightarrow> string"
  str_strip :: "string \<Rightarrow> string"
  str_isdigit :: "string \<Rightarrow> bool"
  str_len :: "string \<Rightarrow> nat"
  int_float_mul :: "int \<Rightarrow> 'f \<Rightarrow> py_exception + 'f"
  float_add :: "'f \<Rightarrow> 'f \<Rightarrow> 'f"
  zero_add :: "'f \<Rightarrow> 'f"
  float_to_int :: "'f \<Rightarrow> py_exception + int"
  int_str :: "int \<Rightarrow> py_exception + string"

section \<open>Data model\<close>

text \<open>
  A cart entry is the dict \<open>{"name", "price", "qty", "subtotal"}\<close>: the quantity is a Python
  int, the price and the subtotal are floats.
\<close>

record 'f line_item =
  name :: string
  price :: 'f
  qty :: int
  subtotal :: 'f

text \<open>
  A session is the dict built by \<open>session_create\<close>. The helpers test whether the key
  \<open>"cart"\<close> is present, so the cart is optional; the user profile is a dict read with
  \<open>.get\<close> and defaults.
\<close>

record 'f session =
  created_at :: 'f
  user :: "string \<rightharpoonup> string"
  cart :: "'f line_item list option"
  categories :: "string list option"
  selected_cat :: "string option"

record op_result =
  success :: bool
  message :: string

text \<open>
  The variable \<open>total\<close> of the two summing loops: the int \<open>0\<close> it starts as, or the float
  it is once a subtotal has been added.
\<close>

datatype 'f py_total = IntZero | FloatTotal 'f

record 'f summary_line =
  line_name :: string
  line_qty :: int
  line_rate :: 'f
  line_amount :: 'f

record 'f cart_summary =
  lines :: "'f summary_line list"
  summary_total :: "'f py_total"

section \<open>Cart helpers\<close>

text \<open>\<open>state.get("cart", [])\<close>: the stored cart, or a fresh empty list when the key is absent.\<close>

definition get_cart :: "'f session \<Rightarrow> 'f line_item list" where
  "get_cart state = (case cart state of None \<Rightarrow> [] | Some c \<Rightarrow> c)"

text \<open>
  The \<open>for\<close> loop of \<open>add_to_cart_state\<close>: it stops at the first entry whose name equals
  \<open>item_name\<close> (compared with \<open>==\<close>). There \<open>it["qty"] += qty\<close> runs first; the product
  \<open>it["qty"] * it["price"]\<close> is computed next and, when it raises, the entry keeps the new
  quantity and its old subtotal. \<open>None\<close> means the loop ran to its end without a match;
  otherwise the result is what was raised, if anything, and the cart as the loop left it.
\<close>

fun add_loop ::
  "'f python \<Rightarrow> 'f line_item list \<Rightarrow> string \<Rightarrow> int \<Rightarrow>
     (py_exception option \<times> 'f line_item list) option" where
  "add_loop py [] item_name q = None"
| "add_loop py (it # rest) item_name q =
     (if name it = item_name
      then (case int_float_mul py (qty it + q) (price it) of
              Inl e \<Rightarrow> Some (Some e, it\<lparr>qty := qty it + q\<rparr> # rest)
            | Inr s \<Rightarrow> Some (None, it\<lparr>qty := qty it + q, subtotal := s\<rparr> # rest))
      else map_option (\<lambda>(e, c). (e, it # c)) (add_loop py rest item_name q))"

text \<open>
  \<open>add_to_cart_state\<close>: a missing \<open>"cart"\<close> key is first set to \<open>[]\<close>. When the loop finds no
  entry, the new one is built, with \<open>float(price) * int(qty)\<close> as its subtotal, and then
  appended; when that product raises, nothing is appended. The result is what was raised,
  if anything, and the state after the call.
\<close>

definition add_to_cart_state ::
  "'f python \<Rightarrow> 'f session \<Rightarrow> string \<Rightarrow> 'f \<Rightarrow> int \<Rightarrow> py_exception option \<times> 'f session" where
  "add_to_cart_state py state item_name p q =
     (let c = get_cart state in
      case add_loop py c item_name q of
        Some (e, c') \<Rightarrow> (e, state\<lparr>cart := Some c'\<rparr>)
      | None \<Rightarrow>
          (case int_float_mul py q p of
             Inl e \<Rightarrow> (Some e, state\<lparr>cart := Some c\<rparr>)
           | Inr s \<Rightarrow>
               (None, state\<lparr>cart := Some (c @ [\<lparr>name = item_name, price = p, qty = q,
                                                  subtotal = s\<rparr>])\<rparr>)))"

text \<open>
  The loop of \<open>remove_from_cart_state\<close>: it stops at the first entry whose lower-cased name
  equals the lower-cased \<open>item_name\<close>, and either pops it or reduces it. Reducing runs
  \<open>it["qty"] -= qty\<close>, then the product for the subtotal, then the formatting of the
  message; each of the last two can raise after the steps before it have taken effect.
\<close>

definition removed_result :: "string \<Rightarrow> op_result" where
  "removed_result item_name =
     \<lparr>success = True, message = ''Removed '' @ item_name @ '' from cart.''\<rparr>"

definition reduced_result :: "string \<Rightarrow> string \<Rightarrow> op_result" where
  "reduced_result item_name qty_text =
     \<lparr>success = True,
      message = ''Reduced '' @ item_name @ '' quantity by '' @ qty_text @ ''.''\<rparr>"

definition not_present_result :: "string \<Rightarrow> op_result" where
  "not_present_result item_name =
     \<lparr>success = False,
      message = ''Item '' @ [CHR 0x27] @ item_name @ [CHR 0x27] @ '' not present in cart.''\<rparr>"

fun remove_loop ::
  "'f python \<Rightarrow> 'f line_item list \<Rightarrow> string \<Rightarrow> int \<Rightarrow>
     ('f line_item list \<times> (py_exception + op_result)) option" where
  "remove_loop py [] item_name q = None"
| "remove_loop py (it # rest) item_name q =
     (if str_lower py (name it) = str_lower py item_name
      then (if qty it \<le> q
            then Some (rest, Inr (removed_result item_name))
            else (case int_float_mul py (qty it - q) (price it) of
                    Inl e \<Rightarrow> Some (it\<lparr>qty := qty it - q\<rparr> # rest, Inl e)
                  | Inr s \<Rightarrow>
                      (case int_str py q of
                         Inl e \<Rightarrow> Some (it\<lparr>qty := qty it - q, subtotal := s\<rparr> # rest, Inl e)
                       | Inr t \<Rightarrow>
                           Some (it\<lparr>qty := qty it - q, subtotal := s\<rparr> # rest,
                                 Inr (reduced_result item_name t)))))
      else map_option (\<lambda>(c, r). (it # c, r)) (remove_loop py rest item_name q))"

definition remove_from_cart_state ::
  "'f python \<Rightarrow> 'f session \<Rightarrow> string \<Rightarrow> int \<Rightarrow> 'f session \<times> (py_exception + op_result)" where
  "remove_from_cart_state py state item_name q =
     (case remove_loop py (get_cart state) item_name q of
        Some (c', r) \<Rightarrow> (state\<lparr>cart := Some c'\<rparr>, r)
      | None \<Rightarrow> (state, Inr (not_present_result item_name)))"

text \<open>\<open>total += it["subtotal"]\<close>: the first addition is \<open>0 + x\<close>, the later ones add floats.\<close>

fun add_to_total :: "'f python \<Rightarrow> 'f py_total \<Rightarrow> 'f \<Rightarrow> 'f py_total" where
  "add_to_total py IntZero x = FloatTotal (zero_add py x)"
| "add_to_total py (FloatTotal t) x = FloatTotal (float_add py t x)"

text \<open>
  \<open>compute_cart_summary\<close>: one pass that appends a row per entry and adds the stored
  subtotals up, starting from \<open>lines = []\<close> and \<open>total = 0\<close>.
\<close>

fun summary_loop ::
  "'f python \<Rightarrow> 'f line_item list \<Rightarrow> 'f summary_line list \<Rightarrow> 'f py_total \<Rightarrow>
     'f summary_line list \<times> 'f py_total" where
  "summary_loop py [] ls t = (ls, t)"
| "summary_loop py (it # rest) ls t =
     summary_loop py rest
       (ls @ [\<lparr>line_name = name it, line_qty = qty it, line_rate = price it,
                line_amount = subtotal it\<rparr>])
       (add_to_total py t (subtotal it))"

definition compute_cart_summary :: "'f python \<Rightarrow> 'f line_item list \<Rightarrow> 'f cart_summary" where
  "compute_cart_summary py c =
     (case summary_loop py c [] IntZero of (ls, t) \<Rightarrow> \<lparr>lines = ls, summary_total = t\<rparr>)"

section \<open>Session store, timers and the billing collaborator\<close>

text \<open>
  The module state: the dict \<open>sessions\<close>, the auto-logout threads started so far (session
  id and delay in seconds) and the requests posted to \<open>BILL_API_URL\<close>. The two settings read
  from the environment are parameters.
\<close>

record config =
  AUTO_LOGOUT_SECONDS :: int
  BILL_API_AUTH :: "string option"

record 'f payload_item =
  itemName :: string
  item_qty :: int
  item_rate :: 'f
  item_amount :: 'f

record 'f order_payload =
  customerName :: string
  mobileNo :: string
  address :: string
  items :: "'f payload_item list"
  payload_total :: "'f py_total"
  paymentMethod :: string

record 'f bill_request =
  json_payload :: "'f order_payload"
  headers :: "(string \<times> string) list"

text \<open>What \<open>requests.post\<close> does: it raises, or returns a response with a status and a body.\<close>

datatype bill_reply = PostRaises string | Response int string

record 'f world =
  sessions :: "string \<rightharpoonup> 'f session"
  timers :: "(string \<times> int) list"
  posted :: "'f bill_request list"

text \<open>
  \<open>reset_session_later\<close> starts a thread that sleeps for \<open>delay\<close> seconds and then runs
  \<open>sessions.pop(session_id, None)\<close>. Starting the thread is recorded; \<open>timer_worker\<close> is what
  the thread does to the store when it wakes up.
\<close>

definition reset_session_later :: "'f world \<Rightarrow> string \<Rightarrow> int \<Rightarrow> 'f world" where
  "reset_session_later w sid delay = w\<lparr>timers := timers w @ [(sid, delay)]\<rparr>"

definition timer_worker :: "'f world \<Rightarrow> string \<Rightarrow> 'f world" where
  "timer_worker w sid = w\<lparr>sessions := (sessions w)(sid := None)\<rparr>"

section \<open>Creating a session\<close>

definition validate_mobile :: "'f python \<Rightarrow> string \<Rightarrow> bool" where
  "validate_mobile py mobile =
     (if mobile = [] \<or> \<not> str_isdigit py mobile then False
      else if take 1 mobile \<noteq> ''3'' then False
      else if str_len py mobile \<noteq> 10 then False
      else True)"

record session_create_request =
  sc_name :: string
  sc_mobile :: string
  sc_address :: string
  sc_country_code :: "string option"

record session_create_response =
  session_id :: string
  response_user :: "string \<rightharpoonup> string"

text \<open>
  \<open>int(time.time()*1000)\<close> for the clock reading \<open>now\<close>: the float is multiplied by the int
  1000 and the product converted to an int.
\<close>

definition clock_ms :: "'f python \<Rightarrow> 'f \<Rightarrow> py_exception + int" where
  "clock_ms py now =
     (case int_float_mul py 1000 now of
        Inl e \<Rightarrow> Inl e
      | Inr p \<Rightarrow> float_to_int py p)"

text \<open>
  \<open>session_create\<close> reads the clock twice: \<open>now\<close> is the reading the id is built from,
  \<open>now'\<close> the one stored as \<open>created_at\<close>. The id is \<open>sess_\<close> followed by the formatted
  millisecond count; the record is assigned to \<open>sessions[session_id]\<close> without looking the
  id up first.
\<close>

definition session_create ::
  "'f python \<Rightarrow> config \<Rightarrow> 'f \<Rightarrow> 'f \<Rightarrow> 'f world \<Rightarrow> session_create_request \<Rightarrow>
     (py_exception + session_create_response) \<times> 'f world" where
  "session_create py cfg now now' w req =
     (let nm = str_strip py (sc_name req);
          mobile = str_strip py (sc_mobile req);
          addr = str_strip py (sc_address req);
          country_code =
            (case sc_country_code req of
               None \<Rightarrow> ''+92''
             | Some cc \<Rightarrow> if cc = [] then ''+92'' else cc)
      in if nm = [] then (Inl (HTTPException 400 (Message ''Name cannot be empty.'')), w)
         else if \<not> validate_mobile py mobile then
           (Inl (HTTPException 400 (Message
              ''Mobile must be 10 digits, start with 3 and contain only digits (e.g., 3001234567).'')),
            w)
         else if addr = [] \<or> str_len py addr < 3 then
           (Inl (HTTPException 400 (Message ''Address cannot be empty or too short.'')), w)
         else
           (case clock_ms py now of
              Inl e \<Rightarrow> (Inl e, w)
            | Inr ms \<Rightarrow>
                (case int_str py ms of
                   Inl e \<Rightarrow> (Inl e, w)
                 | Inr ms_text \<Rightarrow>
                     let sid = ''sess_'' @ ms_text;
                         u = [''name'' \<mapsto> nm, ''mobile'' \<mapsto> country_code @ mobile,
                              ''address'' \<mapsto> addr];
                         w1 = w\<lparr>sessions := (sessions w)(sid \<mapsto>
                                  \<lparr>created_at = now', user = u, cart = Some [],
                                   categories = None, selected_cat = None\<rparr>)\<rparr>;
                         w2 = reset_session_later w1 sid (AUTO_LOGOUT_SECONDS cfg)
                     in (Inr \<lparr>session_id = sid, response_user = u\<rparr>, w2))))"

section \<open>Checkout\<close>

record checkout_request =
  co_session_id :: string
  co_paymentMethod :: string

record 'f checkout_response =
  co_success :: bool
  co_message :: string
  bill_api_status :: int
  payload_sent :: "'f order_payload"

text \<open>The loop of \<open>checkout\<close> that builds \<open>items_payload\<close> and adds the subtotals up.\<close>

fun payload_loop ::
  "'f python \<Rightarrow> 'f line_item list \<Rightarrow> 'f payload_item list \<Rightarrow> 'f py_total \<Rightarrow>
     'f payload_item list \<times> 'f py_total" where
  "payload_loop py [] items_payload t = (items_payload, t)"
| "payload_loop py (it # rest) items_payload t =
     payload_loop py rest
       (items_payload @ [\<lparr>itemName = name it, item_qty = qty it, item_rate = price it,
                           item_amount = subtotal it\<rparr>])
       (add_to_total py t (subtotal it))"

definition dict_get :: "(string \<rightharpoonup> string) \<Rightarrow> string \<Rightarrow> string \<Rightarrow> string" where
  "dict_get d k dflt = (case d k of None \<Rightarrow> dflt | Some v \<Rightarrow> v)"

definition build_payload ::
  "'f python \<Rightarrow> 'f session \<Rightarrow> 'f line_item list \<Rightarrow> string \<Rightarrow> 'f order_payload" where
  "build_payload py state c pm =
     (case payload_loop py c [] IntZero of
        (items_payload, t) \<Rightarrow>
          \<lparr>customerName = dict_get (user state) ''name'' ''Guest'',
           mobileNo = dict_get (user state) ''mobile'' '''',
           address = dict_get (user state) ''address'' '''',
           items = items_payload,
           payload_total = t,
           paymentMethod = pm\<rparr>)"

definition build_headers :: "config \<Rightarrow> (string \<times> string) list" where
  "build_headers cfg =
     (case BILL_API_AUTH cfg of
        None \<Rightarrow> [(''Content-Type'', ''application/json'')]
      | Some tok \<Rightarrow>
          if tok = [] then [(''Content-Type'', ''application/json'')]
          else [(''Content-Type'', ''application/json''), (''Authorization'', ''Bearer '' @ tok)])"

text \<open>
  \<open>checkout\<close>, with the billing collaborator as the function \<open>bill\<close>. The two early exits
  come before the payload is built; the post is recorded in \<open>posted\<close> whatever its outcome;
  the cart is cleared and the 30 second timer started only for status 200 or 201.
\<close>

definition checkout ::
  "'f python \<Rightarrow> config \<Rightarrow> ('f bill_request \<Rightarrow> bill_reply) \<Rightarrow> 'f world \<Rightarrow> checkout_request \<Rightarrow>
     (py_exception + 'f checkout_response) \<times> 'f world" where
  "checkout py cfg bill w req =
     (let sid = co_session_id req in
      case sessions w sid of
        None \<Rightarrow> (Inl (HTTPException 404 (Message ''Session not found.'')), w)
      | Some state \<Rightarrow>
          let c = get_cart state in
          if c = [] then (Inl (HTTPException 400 (Message ''Cart is empty.'')), w)
          else
            let payload = build_payload py state c (co_paymentMethod req);
                request = \<lparr>json_payload = payload, headers = build_headers cfg\<rparr>;
                w1 = w\<lparr>posted := posted w @ [request]\<rparr>
            in (case bill request of
                  PostRaises e \<Rightarrow>
                    (Inl (HTTPException 502 (Message (''Failed to forward to billing API: '' @ e))),
                     w1)
                | Response status_code body \<Rightarrow>
                    if status_code = 200 \<or> status_code = 201 then
                      (Inr \<lparr>co_success = True, co_message = ''Order placed'',
                            bill_api_status = status_code, payload_sent = payload\<rparr>,
                       reset_session_later
                         (w1\<lparr>sessions := (sessions w1)(sid \<mapsto> state\<lparr>cart := Some []\<rparr>)\<rparr>) sid 30)
                    else (Inl (HTTPException 502 (BillingFailure status_code body)), w1)))"

section \<open>Resetting a session\<close>

text \<open>
  The values the handler can meet in \<open>body\<close>. \<open>session_reset\<close> is a plain \<open>def\<close> that calls
  \<open>request.json()\<close> without awaiting it; \<open>Request.json\<close> is a coroutine function, so the call
  raises nothing and returns a coroutine object, which wraps the document that awaiting
  it would have produced.
\<close>

datatype py_value =
    PyNone
  | PyStr string
  | PyInt int
  | PyList "py_value list"
  | PyDict "(string \<times> py_value) list"
  | PyCoroutine py_value

record request =
  json_body :: py_value

definition request_json :: "request \<Rightarrow> py_value" where
  "request_json r = PyCoroutine (json_body r)"

fun truthy :: "py_value \<Rightarrow> bool" where
  "truthy PyNone = False"
| "truthy (PyStr s) = (s \<noteq> [])"
| "truthy (PyInt i) = (i \<noteq> 0)"
| "truthy (PyList xs) = (xs \<noteq> [])"
| "truthy (PyDict d) = (d \<noteq> [])"
| "truthy (PyCoroutine v) = True"

text \<open>\<open>key in sessions\<close>: lists and dicts are unhashable; only a \<open>str\<close> can be a key.\<close>

fun in_sessions :: "py_value \<Rightarrow> (string \<rightharpoonup> 'f session) \<Rightarrow> py_exception + bool" where
  "in_sessions (PyStr s) m = Inr (s \<in> dom m)"
| "in_sessions (PyList xs) m = Inl TypeError"
| "in_sessions (PyDict d) m = Inl TypeError"
| "in_sessions v m = Inr False"

text \<open>
  The handler from the line after the \<open>try\<close> block on, for a given value of \<open>body\<close>:
  \<open>session_id\<close> is \<open>body.get("session_id")\<close> when \<open>body\<close> is a dict and \<open>None\<close> otherwise.
\<close>

definition session_reset_body :: "'f world \<Rightarrow> py_value \<Rightarrow> (py_exception + bool) \<times> 'f world" where
  "session_reset_body w body =
     (let sid = (case body of
                   PyDict d \<Rightarrow> (case map_of d ''session_id'' of None \<Rightarrow> PyNone | Some v \<Rightarrow> v)
                 | _ \<Rightarrow> PyNone)
      in if \<not> truthy sid then (Inr False, w)
         else case in_sessions sid (sessions w) of
                Inl e \<Rightarrow> (Inl e, w)
              | Inr False \<Rightarrow> (Inr False, w)
              | Inr True \<Rightarrow>
                  (case sid of
                     PyStr s \<Rightarrow> (Inr True, w\<lparr>sessions := (sessions w)(s := None)\<rparr>)
                   | _ \<Rightarrow> (Inr True, w)))"

definition session_reset :: "'f world \<Rightarrow> request \<Rightarrow> (py_exception + bool) \<times> 'f world" where
  "session_reset w r = session_reset_body w (request_json r)"

section \<open>Sequences of cart operations\<close>

text \<open>
  A call of either helper, and a run of such calls on one session. A call that raises ends
  its request only: the session stays in the store as the call left it and later calls go
  on from there. A run yields the exceptions raised, in order, and the final state.
\<close>

datatype 'f cart_op = AddItem string 'f int | RemoveItem string int

fun apply_cart_op :: "'f python \<Rightarrow> 'f session \<Rightarrow> 'f cart_op \<Rightarrow> py_exception option \<times> 'f session" where
  "apply_cart_op py state (AddItem item_name p q) = add_to_cart_state py state item_name p q"
| "apply_cart_op py state (RemoveItem item_name q) =
     (case remove_from_cart_state py state item_name q of
        (state', Inl e) \<Rightarrow> (Some e, state')
      | (state', Inr r) \<Rightarrow> (None, state'))"

fun run_cart_ops ::
  "'f python \<Rightarrow> 'f session \<Rightarrow> 'f cart_op list \<Rightarrow> py_exception list \<times> 'f session" where
  "run_cart_ops py state [] = ([], state)"
| "run_cart_ops py state (op # ops) =
     (case apply_cart_op py state op of
        (e, state1) \<Rightarrow>
          (case run_cart_ops py state1 ops of
             (es, state2) \<Rightarrow> ((case e of None \<Rightarrow> [] | Some x \<Rightarrow> [x]) @ es, state2)))"


text \<open>An entry matches a name when the two agree after lower-casing, as the removal loop tests.\<close>

definition matches :: "'f python \<Rightarrow> string \<Rightarrow> 'f line_item \<Rightarrow> bool" where
  "matches py item_name it \<longleftrightarrow> str_lower py (name it) = str_lower py item_name"


text \<open>A payload row and a summary row carry the same four values.\<close>

definition same_row :: "'f payload_item \<Rightarrow> 'f summary_line \<Rightarrow> bool" where
  "same_row p l \<longleftrightarrow>
     itemName p = line_name l \<and> item_qty p = line_qty l \<and> item_rate p = line_rate l \<and>
     item_amount p = line_amount l"

text \<open>\<open>str\<close> of an int gives different strings for different ints.\<close>

definition int_str_injective :: "'f python \<Rightarrow> bool" where
  "int_str_injective py \<longleftrightarrow>
     (\<forall>i j s. int_str py i = Inr s \<and> int_str py j = Inr s \<longrightarrow> i = j)"

section \<open>An instance of the primitives\<close>

text \<open>
  The worked examples run on this instance: the \<open>str\<close> methods as they act on ASCII
  strings, and binary64 arithmetic with rounding to nearest, ties to even.
\<close>

definition ascii_lower_char :: "char \<Rightarrow> char" where
  "ascii_lower_char c =
     (case map_of (zip ''ABCDEFGHIJKLMNOPQRSTUVWXYZ'' ''abcdefghijklmnopqrstuvwxyz'') c of
        None \<Rightarrow> c
      | Some d \<Rightarrow> d)"

definition ascii_lower :: "string \<Rightarrow> string" where
  "ascii_lower s = map ascii_lower_char s"

definition ascii_space :: "char \<Rightarrow> bool" where
  "ascii_space c \<longleftrightarrow>
     c \<in> set [CHR 0x09, CHR 0x0A, CHR 0x0B, CHR 0x0C, CHR 0x0D, CHR 0x1C, CHR 0x1D, CHR 0x1E,
              CHR 0x1F, CHR 0x20]"

definition ascii_strip :: "string \<Rightarrow> string" where
  "ascii_strip s = rev (dropWhile ascii_space (rev (dropWhile ascii_space s)))"

definition ascii_isdigit :: "string \<Rightarrow> bool" where
  "ascii_isdigit s \<longleftrightarrow> s \<noteq> [] \<and> list_all (\<lambda>c. c \<in> set ''0123456789'') s"

text \<open>The decimal digits of an int, with a leading minus sign below zero.\<close>

fun digits :: "nat \<Rightarrow> string" where
  "digits n =
     (if n < 10 then [''0123456789'' ! n]
      else digits (n div 10) @ [''0123456789'' ! (n mod 10)])"

declare digits.simps [simp del]

definition str_int :: "int \<Rightarrow> string" where
  "str_int i = (if i < 0 then CHR ''-'' # digits (nat (- i)) else digits (nat i))"

text \<open>\<open>str(i)\<close> raises for an int of more than 4300 digits, the interpreter's default limit.\<close>

definition limited_str :: "int \<Rightarrow> py_exception + string" where
  "limited_str i =
     (if 4300 < length (digits (nat \<bar>i\<bar>)) then Inl ValueError else Inr (str_int i))"

text \<open>
  A binary64 value is a finite number, an infinity or a NaN; the sign of zero is not
  tracked. \<open>round64\<close> takes a real number to the nearest binary64 value: with \<open>e\<close> the
  exponent of the number, and at least \<open>-1022\<close>, the values around it are the multiples of
  \<open>2 ^ (e - 52)\<close>, and a result of magnitude \<open>2 ^ 1024\<close> overflows to an infinity.
\<close>

datatype float64 = Finite real | PosInf | NegInf | NaN

fun bit_length :: "nat \<Rightarrow> nat" where
  "bit_length n = (if n = 0 then 0 else Suc (bit_length (n div 2)))"

declare bit_length.simps [simp del]

definition pow2 :: "int \<Rightarrow> real" where
  "pow2 k = (if 0 \<le> k then 2 ^ nat k else 1 / 2 ^ nat (- k))"

definition exponent_of :: "real \<Rightarrow> int" where
  "exponent_of x =
     (if 1 \<le> x then int (bit_length (nat \<lfloor>x\<rfloor>)) - 1
      else - int (bit_length (nat (\<lceil>1 / x\<rceil> - 1))))"

definition nearest_even :: "real \<Rightarrow> int" where
  "nearest_even s =
     (let f = \<lfloor>s\<rfloor>; d = s - of_int f
      in if d < 1 / 2 then f else if 1 / 2 < d then f + 1 else if even f then f else f + 1)"

definition round64 :: "real \<Rightarrow> float64" where
  "round64 x =
     (if x = 0 then Finite 0
      else let e = max (exponent_of \<bar>x\<bar>) (- 1022);
               u = pow2 (e - 52);
               r = of_int (nearest_even (x / u)) * u
           in if pow2 1024 \<le> \<bar>r\<bar> then (if 0 < x then PosInf else NegInf) else Finite r)"

fun f64_add :: "float64 \<Rightarrow> float64 \<Rightarrow> float64" where
  "f64_add NaN y = NaN"
| "f64_add x NaN = NaN"
| "f64_add PosInf NegInf = NaN"
| "f64_add NegInf PosInf = NaN"
| "f64_add PosInf y = PosInf"
| "f64_add x PosInf = PosInf"
| "f64_add NegInf y = NegInf"
| "f64_add x NegInf = NegInf"
| "f64_add (Finite a) (Finite b) = round64 (a + b)"

fun inf_times :: "bool \<Rightarrow> real \<Rightarrow> float64" where
  "inf_times positive a =
     (if a = 0 then NaN else if (0 < a) = positive then PosInf else NegInf)"

fun f64_mul :: "float64 \<Rightarrow> float64 \<Rightarrow> float64" where
  "f64_mul NaN y = NaN"
| "f64_mul x NaN = NaN"
| "f64_mul (Finite a) (Finite b) = round64 (a * b)"
| "f64_mul (Finite a) PosInf = inf_times True a"
| "f64_mul (Finite a) NegInf = inf_times False a"
| "f64_mul PosInf (Finite b) = inf_times True b"
| "f64_mul NegInf (Finite b) = inf_times False b"
| "f64_mul PosInf PosInf = PosInf"
| "f64_mul NegInf NegInf = PosInf"
| "f64_mul PosInf NegInf = NegInf"
| "f64_mul NegInf PosInf = NegInf"

text \<open>
  \<open>float(i)\<close> of an int rounds, and raises when the int has magnitude \<open>2 ^ 1024\<close> or more
  or rounds to it.
\<close>

definition f64_of_int :: "int \<Rightarrow> py_exception + float64" where
  "f64_of_int i =
     (if 2 ^ 1024 \<le> \<bar>i\<bar> then Inl OverflowError
      else case round64 (of_int i) of
             Finite r \<Rightarrow> Inr (Finite r)
           | _ \<Rightarrow> Inl OverflowError)"

definition f64_int_mul :: "int \<Rightarrow> float64 \<Rightarrow> py_exception + float64" where
  "f64_int_mul i x = (case f64_of_int i of Inl e \<Rightarrow> Inl e | Inr y \<Rightarrow> Inr (f64_mul y x))"

text \<open>\<open>int(x)\<close> of a float truncates towards zero.\<close>

definition f64_to_int :: "float64 \<Rightarrow> py_exception + int" where
  "f64_to_int x =
     (case x of
        Finite r \<Rightarrow> Inr (if 0 \<le> r then \<lfloor>r\<rfloor> else \<lceil>r\<rceil>)
      | NaN \<Rightarrow> Inl ValueError
      | _ \<Rightarrow> Inl OverflowError)"

definition py64 :: "float64 python" where
  "py64 =
     \<lparr>str_lower = ascii_lower, str_strip = ascii_strip, str_isdigit = ascii_isdigit,
      str_len = length, int_float_mul = f64_int_mul, float_add = f64_add,
      zero_add = f64_add (Finite 0), float_to_int = f64_to_int, int_str = limited_str\<rparr>"

section \<open>The worked example\<close>

text \<open>The settings, Ali's create request, his session and the store that holds it.\<close>

definition demo_config :: config where
  "demo_config = \<lparr>AUTO_LOGOUT_SECONDS = 1800, BILL_API_AUTH = None\<rparr>"

definition ali_request :: session_create_request where
  "ali_request =
     \<lparr>sc_name = ''Ali'', sc_mobile = ''3001234567'', sc_address = ''House 1 St 2'',
      sc_country_code = Some ''+92''\<rparr>"

definition sara_request :: session_create_request where
  "sara_request =
     \<lparr>sc_name = ''Sara'', sc_mobile = ''3111234567'', sc_address = ''Flat 9'',
      sc_country_code = None\<rparr>"

definition ali_session :: "float64 session" where
  "ali_session =
     \<lparr>created_at = Finite 1700000000,
      user = [''name'' \<mapsto> ''Ali'', ''mobile'' \<mapsto> ''+923001234567'', ''address'' \<mapsto> ''House 1 St 2''],
      cart = Some [], categories = None, selected_cat = None\<rparr>"

definition chicken_session :: "float64 session" where
  "chicken_session =
     ali_session\<lparr>cart := Some [\<lparr>name = ''Chicken'', price = Finite 500, qty = 2,
                                 subtotal = Finite 1000\<rparr>]\<rparr>"

definition empty_world :: "float64 world" where
  "empty_world = \<lparr>sessions = Map.empty, timers = [], posted = []\<rparr>"

definition ali_world :: "float64 world" where
  "ali_world =
     \<lparr>sessions = [''sess_1700000000000'' \<mapsto> ali_session],
      timers = [(''sess_1700000000000'', 1800)], posted = []\<rparr>"

definition chicken_world :: "float64 world" where
  "chicken_world = ali_world\<lparr>sessions := [''sess_1700000000000'' \<mapsto> chicken_session]\<rparr>"

definition cod_request :: checkout_request where
  "cod_request = \<lparr>co_session_id = ''sess_1700000000000'', co_paymentMethod = ''Cash on Delivery''\<rparr>"

definition reset_request :: request where
  "reset_request = \<lparr>json_body = PyDict [(''session_id'', PyStr ''sess_1700000000000'')]\<rparr>"

section \<open>Evaluation rules\<close>

lemmas digits_eval =
  digits.simps [of 0] digits.simps [of "Suc 0"] digits.simps [of "numeral k" for k]

lemmas bit_length_eval =
  bit_length.simps [of 0] bit_length.simps [of "Suc 0"] bit_length.simps [of "numeral k" for k]

lemmas f64_eval =
  round64_def exponent_of_def nearest_even_def pow2_def bit_length_eval f64_of_int_def
  f64_int_mul_def f64_to_int_def Let_def

lemmas py64_eval =
  py64_def ascii_lower_def ascii_lower_char_def ascii_strip_def ascii_space_def
  ascii_isdigit_def limited_str_def str_int_def digits_eval f64_eval

lemmas cart_eval =
  add_to_cart_state_def remove_from_cart_state_def get_cart_def removed_result_def
  reduced_result_def not_present_result_def ali_session_def chicken_session_def py64_eval

lemmas world_eval =
  checkout_def build_payload_def build_headers_def dict_get_def compute_cart_summary_def
  reset_session_later_def demo_config_def ali_request_def sara_request_def empty_world_def
  ali_world_def chicken_world_def cod_request_def same_row_def

lemmas create_eval = session_create_def validate_mobile_def clock_ms_def

section \<open>The subtotal invariant\<close>



lemma get_cart_update [simp]: "get_cart (state\<lparr>cart := Some c\<rparr>) = c"
  by (simp add: get_cart_def)

lemma add_to_cart_state_result:
  "add_to_cart_state py state n p q =
     (case add_loop py (get_cart state) n q of
        Some (e, c') \<Rightarrow> (e, state\<lparr>cart := Some c'\<rparr>)
      | None \<Rightarrow>
          (case int_float_mul py q p of
             Inl e \<Rightarrow> (Some e, state\<lparr>cart := Some (get_cart state)\<rparr>)
           | Inr s \<Rightarrow>
               (None, state\<lparr>cart := Some (get_cart state @
                  [\<lparr>name = n, price = p, qty = q, subtotal = s\<rparr>])\<rparr>)))"
  by (simp add: add_to_cart_state_def Let_def)




lemma run_cart_ops_Cons_quiet:
  assumes "run_cart_ops py state (op # ops) = ([], state')"
  shows "\<exists>state1. apply_cart_op py state op = (None, state1) \<and>
           run_cart_ops py state1 ops = ([], state')"
  using assms by (auto split: prod.splits option.splits)








section \<open>Adding to the cart\<close>

lemma add_loop_no_name: "item_name \<notin> name ` set c \<Longrightarrow> add_loop py c item_name q = None"
  by (induction c) auto

lemma add_loop_last:
  "item_name \<notin> name ` set c \<Longrightarrow> name l = item_name \<Longrightarrow>
   add_loop py (c @ [l]) item_name q =
     (case int_float_mul py (qty l + q) (price l) of
        Inl e \<Rightarrow> Some (Some e, c @ [l\<lparr>qty := qty l + q\<rparr>])
      | Inr s \<Rightarrow> Some (None, c @ [l\<lparr>qty := qty l + q, subtotal := s\<rparr>]))"
  by (induction c) (auto split: sum.splits)

lemma add_first:
  assumes "item_name \<notin> name ` set (get_cart state)"
    and "add_to_cart_state py state item_name p q = (None, state1)"
  shows "\<exists>s. int_float_mul py q p = Inr s \<and>
           get_cart state1 =
             get_cart state @ [\<lparr>name = item_name, price = p, qty = q, subtotal = s\<rparr>]"
  using assms
  by (auto simp: add_to_cart_state_result add_loop_no_name split: sum.splits)

lemma add_again:
  assumes "item_name \<notin> name ` set c"
    and "get_cart state = c @ [\<lparr>name = item_name, price = p0, qty = k, subtotal = s0\<rparr>]"
    and "add_to_cart_state py state item_name p q = (None, state1)"
  shows "\<exists>s. int_float_mul py (k + q) p0 = Inr s \<and>
           get_cart state1 =
             c @ [\<lparr>name = item_name, price = p0, qty = k + q, subtotal = s\<rparr>]"
  using assms
  by (auto simp: add_to_cart_state_result add_loop_last split: sum.splits)

lemma add_run_merge:
  "item_name \<notin> name ` set c \<Longrightarrow>
   get_cart state = c @ [\<lparr>name = item_name, price = p0, qty = k, subtotal = s0\<rparr>] \<Longrightarrow>
   int_float_mul py k p0 = Inr s0 \<Longrightarrow>
   run_cart_ops py state (map (\<lambda>(p, q). AddItem item_name p q) calls) = ([], state') \<Longrightarrow>
   \<exists>s. int_float_mul py (k + sum_list (map snd calls)) p0 = Inr s \<and>
       get_cart state' =
         c @ [\<lparr>name = item_name, price = p0, qty = k + sum_list (map snd calls), subtotal = s\<rparr>]"
proof (induction calls arbitrary: state k s0)
  case Nil
  then show ?case by simp
next
  case (Cons call calls)
  obtain p q where call: "call = (p, q)" by (cases call)
  from Cons.prems(4) call
  have "run_cart_ops py state (AddItem item_name p q #
      map (\<lambda>(p, q). AddItem item_name p q) calls) = ([], state')"
    by simp
  from run_cart_ops_Cons_quiet [OF this] obtain state1
    where first: "add_to_cart_state py state item_name p q = (None, state1)"
      and later: "run_cart_ops py state1 (map (\<lambda>(p, q). AddItem item_name p q) calls) =
        ([], state')"
    by auto
  from add_again [OF Cons.prems(1,2) first] obtain s1
    where s1: "int_float_mul py (k + q) p0 = Inr s1"
      and c1: "get_cart state1 =
        c @ [\<lparr>name = item_name, price = p0, qty = k + q, subtotal = s1\<rparr>]"
    by blast
  from Cons.IH [OF Cons.prems(1) c1 s1 later] call show ?case
    by (simp add: add.assoc)
qed

text \<open>
  Claim C2, amended. On a cart with no entry named \<open>item_name\<close>, one or more
  \<open>add_to_cart_state\<close> calls that all pass exactly that name, none of which raises, leave
  the earlier entries as they were and add exactly one entry for the name: its price is the
  price of the first call, its quantity the sum of the calls' quantities and its subtotal
  the product of that quantity and the first call's price. Later prices are not stored.
\<close>

theorem repeated_add_same_name:
  assumes "item_name \<notin> name ` set (get_cart state)"
    and "run_cart_ops py state (map (\<lambda>(p, q). AddItem item_name p q) ((p0, q0) # calls)) =
           ([], state')"
  shows "\<exists>s. int_float_mul py (q0 + sum_list (map snd calls)) p0 = Inr s \<and>
           get_cart state' =
             get_cart state @
               [\<lparr>name = item_name, price = p0, qty = q0 + sum_list (map snd calls),
                 subtotal = s\<rparr>] \<and>
           length (filter (\<lambda>it. name it = item_name) (get_cart state')) = 1"
proof -
  from assms(2)
  have "run_cart_ops py state (AddItem item_name p0 q0 #
      map (\<lambda>(p, q). AddItem item_name p q) calls) = ([], state')"
    by simp
  from run_cart_ops_Cons_quiet [OF this] obtain state1
    where first: "add_to_cart_state py state item_name p0 q0 = (None, state1)"
      and later: "run_cart_ops py state1 (map (\<lambda>(p, q). AddItem item_name p q) calls) =
        ([], state')"
    by auto
  from add_first [OF assms(1) first] obtain s0
    where s0: "int_float_mul py q0 p0 = Inr s0"
      and c1: "get_cart state1 =
        get_cart state @ [\<lparr>name = item_name, price = p0, qty = q0, subtotal = s0\<rparr>]"
    by blast
  from add_run_merge [OF assms(1) c1 s0 later] obtain s
    where s: "int_float_mul py (q0 + sum_list (map snd calls)) p0 = Inr s"
      and c': "get_cart state' =
        get_cart state @
          [\<lparr>name = item_name, price = p0, qty = q0 + sum_list (map snd calls), subtotal = s\<rparr>]"
    by blast
  have "filter (\<lambda>it. name it = item_name) (get_cart state) = []"
    using assms(1) by (auto simp: filter_empty_conv)
  with c' have "length (filter (\<lambda>it. name it = item_name) (get_cart state')) = 1" by simp
  with s c' show ?thesis by blast
qed

lemma three_adds:
  "run_cart_ops py64 ali_session
     (map (\<lambda>(p, q). AddItem ''Chicken'' p q) [(Finite 500, 2), (Finite 300, 1), (Finite 450, 4)]) =
   ([], ali_session\<lparr>cart := Some [\<lparr>name = ''Chicken'', price = Finite 500, qty = 7,
                                     subtotal = Finite 3500\<rparr>]\<rparr>)"
  by (simp add: cart_eval)

theorem repeated_add_same_name_witness:
  "''Chicken'' \<notin> name ` set (get_cart ali_session) \<and>
   run_cart_ops py64 ali_session
     (map (\<lambda>(p, q). AddItem ''Chicken'' p q) [(Finite 500, 2), (Finite 300, 1), (Finite 450, 4)]) =
   ([], ali_session\<lparr>cart := Some [\<lparr>name = ''Chicken'', price = Finite 500, qty = 7,
                                     subtotal = Finite 3500\<rparr>]\<rparr>) \<and>
   int_float_mul py64 7 (Finite 500) = Inr (Finite 3500) \<and>
   length (filter (\<lambda>it. name it = ''Chicken'')
     [\<lparr>name = ''Chicken'', price = Finite 500, qty = 7, subtotal = Finite 3500\<rparr>]) = 1"
proof -
  have h: "''Chicken'' \<notin> name ` set (get_cart ali_session)"
    by (simp add: get_cart_def ali_session_def)
  have e: "get_cart ali_session = []"
    by (simp add: get_cart_def ali_session_def)
  from repeated_add_same_name [OF h three_adds] e
  have "int_float_mul py64 7 (Finite 500) = Inr (Finite 3500)" by auto
  with h three_adds show ?thesis by simp
qed

text \<open>
  The claim as written fails on both counts. Two calls for \<open>Chicken\<close> at prices 500 and
  300 leave the subtotal at 1500, while the quantity times the last price is 900; and a
  second call that spells the name \<open>CHICKEN\<close> adds a second entry.
\<close>

theorem repeated_add_counterexample:
  "run_cart_ops py64 ali_session
     (map (\<lambda>(p, q). AddItem ''Chicken'' p q) [(Finite 500, 2), (Finite 300, 1)]) =
   ([], ali_session\<lparr>cart := Some [\<lparr>name = ''Chicken'', price = Finite 500, qty = 3,
                                     subtotal = Finite 1500\<rparr>]\<rparr>) \<and>
   int_float_mul py64 (2 + 1) (Finite 300) = Inr (Finite 900) \<and>
   run_cart_ops py64 ali_session
     [AddItem ''Chicken'' (Finite 500) 2, AddItem ''CHICKEN'' (Finite 500) 1] =
   ([], ali_session\<lparr>cart := Some [\<lparr>name = ''Chicken'', price = Finite 500, qty = 2,
                                     subtotal = Finite 1000\<rparr>,
                                    \<lparr>name = ''CHICKEN'', price = Finite 500, qty = 1,
                                     subtotal = Finite 500\<rparr>]\<rparr>)"
  by (simp add: cart_eval)

text \<open>
  Claim C1 at its failing input. \<open>Chicken\<close> and \<open>chicken\<close> agree after lower-casing, yet
  adding \<open>chicken\<close> to a cart that holds \<open>Chicken\<close> appends a second entry: the loop of
  \<open>add_to_cart_state\<close> compares names with \<open>==\<close>, while the loop of
  \<open>remove_from_cart_state\<close> lower-cases both sides.
\<close>

theorem add_case_variant_second_line:
  "str_lower py64 ''chicken'' = str_lower py64 ''Chicken'' \<and>
   run_cart_ops py64 ali_session
     [AddItem ''Chicken'' (Finite 500) 2, AddItem ''chicken'' (Finite 500) 1] =
   ([], ali_session\<lparr>cart := Some [\<lparr>name = ''Chicken'', price = Finite 500, qty = 2,
                                     subtotal = Finite 1000\<rparr>,
                                    \<lparr>name = ''chicken'', price = Finite 500, qty = 1,
                                     subtotal = Finite 500\<rparr>]\<rparr>)"
  by (simp add: cart_eval)

lemma add_loop_names: "add_loop py c n q = Some (e, c') \<Longrightarrow> map name c' = map name c"
  by (induction c arbitrary: c') (auto split: if_splits sum.splits)

lemma add_loop_None_name: "add_loop py c n q = None \<Longrightarrow> n \<notin> name ` set c"
  by (induction c) (auto split: if_splits sum.splits)

lemma remove_loop_names_subset:
  "remove_loop py c n q = Some (c', r) \<Longrightarrow> set (map name c') \<subseteq> set (map name c)"
proof (induction c arbitrary: c')
  case Nil
  then show ?case by simp
next
  case (Cons it rest)
  show ?case
  proof (cases "str_lower py (name it) = str_lower py n")
    case True
    with Cons.prems show ?thesis by (auto split: if_splits sum.splits)
  next
    case False
    with Cons.prems obtain d where d: "remove_loop py rest n q = Some (d, r)" and c': "c' = it # d"
      by auto
    from d have "set (map name d) \<subseteq> set (map name rest)" by (rule Cons.IH)
    with c' show ?thesis by auto
  qed
qed

lemma remove_loop_distinct:
  "remove_loop py c n q = Some (c', r) \<Longrightarrow> distinct (map name c) \<Longrightarrow> distinct (map name c')"
proof (induction c arbitrary: c')
  case Nil
  then show ?case by simp
next
  case (Cons it rest)
  show ?case
  proof (cases "str_lower py (name it) = str_lower py n")
    case True
    with Cons.prems show ?thesis by (auto split: if_splits sum.splits)
  next
    case False
    with Cons.prems(1) obtain d where d: "remove_loop py rest n q = Some (d, r)"
      and c': "c' = it # d"
      by auto
    from d Cons.prems(2) have "distinct (map name d)" by (simp add: Cons.IH)
    moreover from d have "set (map name d) \<subseteq> set (map name rest)"
      by (rule remove_loop_names_subset)
    ultimately show ?thesis using Cons.prems(2) c' by auto
  qed
qed

lemma apply_cart_op_distinct:
  "distinct (map name (get_cart state)) \<Longrightarrow>
   distinct (map name (get_cart (snd (apply_cart_op py state op))))"
proof (cases op)
  case (AddItem n p q)
  assume d: "distinct (map name (get_cart state))"
  show ?thesis
  proof (cases "add_loop py (get_cart state) n q")
    case None
    then have "n \<notin> name ` set (get_cart state)" by (rule add_loop_None_name)
    with d None AddItem show ?thesis
      by (simp add: add_to_cart_state_result split: sum.splits)
  next
    case (Some ec)
    obtain e c' where ec: "ec = (e, c')" by (cases ec)
    with Some have "map name c' = map name (get_cart state)" by (simp add: add_loop_names)
    with d Some ec AddItem show ?thesis by (simp add: add_to_cart_state_result)
  qed
next
  case (RemoveItem n q)
  assume d: "distinct (map name (get_cart state))"
  show ?thesis
  proof (cases "remove_loop py (get_cart state) n q")
    case None
    with d RemoveItem show ?thesis by (simp add: remove_from_cart_state_def)
  next
    case (Some cr)
    obtain c' r where cr: "cr = (c', r)" by (cases cr)
    with Some d have "distinct (map name c')" by (simp add: remove_loop_distinct)
    with Some cr RemoveItem show ?thesis
      by (simp add: remove_from_cart_state_def split: sum.splits)
  qed
qed

text \<open>
  What \<open>add_to_cart_state\<close> does keep: starting from the empty cart, no two entries ever
  have exactly the same name, whether or not a call raised on the way.
\<close>

theorem exact_names_distinct:
  "cart state = Some [] \<Longrightarrow> distinct (map name (get_cart (snd (run_cart_ops py state ops))))"
proof -
  assume "cart state = Some []"
  then have start: "distinct (map name (get_cart state))" by (simp add: get_cart_def)
  have "distinct (map name (get_cart s)) \<Longrightarrow>
      distinct (map name (get_cart (snd (run_cart_ops py s ops))))" for s
  proof (induction ops arbitrary: s)
    case Nil
    then show ?case by simp
  next
    case (Cons op ops)
    from Cons.prems have "distinct (map name (get_cart (snd (apply_cart_op py s op))))"
      by (rule apply_cart_op_distinct)
    from Cons.IH [OF this] show ?case by (auto split: prod.splits)
  qed
  with start show ?thesis by simp
qed

theorem exact_names_distinct_witness:
  "cart ali_session = Some [] \<and>
   get_cart (snd (run_cart_ops py64 ali_session
     [AddItem ''Chicken'' (Finite 500) 2, AddItem ''chicken'' (Finite 500) 1,
      AddItem ''Chicken'' (Finite 500) 1])) =
     [\<lparr>name = ''Chicken'', price = Finite 500, qty = 3, subtotal = Finite 1500\<rparr>,
      \<lparr>name = ''chicken'', price = Finite 500, qty = 1, subtotal = Finite 500\<rparr>] \<and>
   distinct (map name (get_cart (snd (run_cart_ops py64 ali_session
     [AddItem ''Chicken'' (Finite 500) 2, AddItem ''chicken'' (Finite 500) 1,
      AddItem ''Chicken'' (Finite 500) 1]))))"
proof -
  have e: "cart ali_session = Some []" by (simp add: ali_session_def)
  have c: "get_cart (snd (run_cart_ops py64 ali_session
     [AddItem ''Chicken'' (Finite 500) 2, AddItem ''chicken'' (Finite 500) 1,
      AddItem ''Chicken'' (Finite 500) 1])) =
     [\<lparr>name = ''Chicken'', price = Finite 500, qty = 3, subtotal = Finite 1500\<rparr>,
      \<lparr>name = ''chicken'', price = Finite 500, qty = 1, subtotal = Finite 500\<rparr>]"
    by (simp add: cart_eval)
  from exact_names_distinct [OF e] e c show ?thesis by blast
qed

section \<open>Removing from the cart\<close>

lemma remove_loop_no_match:
  "\<not> list_ex (matches py item_name) c \<Longrightarrow> remove_loop py c item_name q = None"
  by (induction c) (auto simp: matches_def)

lemma remove_loop_first_match:
  "\<not> list_ex (matches py item_name) pre \<Longrightarrow> matches py item_name it \<Longrightarrow>
   remove_loop py (pre @ it # post) item_name q =
     (if qty it \<le> q then Some (pre @ post, Inr (removed_result item_name))
      else (case int_float_mul py (qty it - q) (price it) of
              Inl e \<Rightarrow> Some (pre @ it\<lparr>qty := qty it - q\<rparr> # post, Inl e)
            | Inr s \<Rightarrow>
                (case int_str py q of
                   Inl e \<Rightarrow> Some (pre @ it\<lparr>qty := qty it - q, subtotal := s\<rparr> # post, Inl e)
                 | Inr t \<Rightarrow>
                     Some (pre @ it\<lparr>qty := qty it - q, subtotal := s\<rparr> # post,
                           Inr (reduced_result item_name t)))))"
  by (induction pre) (auto simp: matches_def split: sum.splits)

text \<open>
  What \<open>remove_from_cart_state\<close> does, for every cart. It acts on the first entry that
  matches the name after lower-casing. With no such entry it reports failure and returns
  the state unchanged. If that entry's quantity is at most the requested one, the entry is
  removed and the outcome is "Removed"; no entry matching the name is left afterwards when
  no later entry matched it. Otherwise the quantity is reduced by the requested one; then
  the subtotal is recomputed and the outcome is "Reduced", unless the product or the
  formatting of the message raises, which leaves the steps before it in effect.
\<close>

theorem remove_outcomes:
  "(\<not> list_ex (matches py item_name) (get_cart state) \<longrightarrow>
      remove_from_cart_state py state item_name q = (state, Inr (not_present_result item_name))) \<and>
   (get_cart state = pre @ it # post \<and> \<not> list_ex (matches py item_name) pre \<and>
    matches py item_name it \<longrightarrow>
      (if qty it \<le> q
       then remove_from_cart_state py state item_name q =
              (state\<lparr>cart := Some (pre @ post)\<rparr>, Inr (removed_result item_name)) \<and>
            (\<not> list_ex (matches py item_name) post \<longrightarrow>
               \<not> list_ex (matches py item_name)
                   (get_cart (fst (remove_from_cart_state py state item_name q))))
       else (case int_float_mul py (qty it - q) (price it) of
               Inl e \<Rightarrow>
                 remove_from_cart_state py state item_name q =
                   (state\<lparr>cart := Some (pre @ it\<lparr>qty := qty it - q\<rparr> # post)\<rparr>, Inl e)
             | Inr s \<Rightarrow>
                 (case int_str py q of
                    Inl e \<Rightarrow>
                      remove_from_cart_state py state item_name q =
                        (state\<lparr>cart := Some (pre @ it\<lparr>qty := qty it - q, subtotal := s\<rparr> # post)\<rparr>,
                         Inl e)
                  | Inr t \<Rightarrow>
                      remove_from_cart_state py state item_name q =
                        (state\<lparr>cart := Some (pre @ it\<lparr>qty := qty it - q, subtotal := s\<rparr> # post)\<rparr>,
                         Inr (reduced_result item_name t))))))"
proof (intro conjI impI)
  assume "\<not> list_ex (matches py item_name) (get_cart state)"
  then show "remove_from_cart_state py state item_name q =
      (state, Inr (not_present_result item_name))"
    by (simp add: remove_from_cart_state_def remove_loop_no_match)
next
  assume h: "get_cart state = pre @ it # post \<and> \<not> list_ex (matches py item_name) pre \<and>
    matches py item_name it"
  then have loop: "remove_loop py (get_cart state) item_name q =
      remove_loop py (pre @ it # post) item_name q"
    by simp
  from h show "if qty it \<le> q
       then remove_from_cart_state py state item_name q =
              (state\<lparr>cart := Some (pre @ post)\<rparr>, Inr (removed_result item_name)) \<and>
            (\<not> list_ex (matches py item_name) post \<longrightarrow>
               \<not> list_ex (matches py item_name)
                   (get_cart (fst (remove_from_cart_state py state item_name q))))
       else (case int_float_mul py (qty it - q) (price it) of
               Inl e \<Rightarrow>
                 remove_from_cart_state py state item_name q =
                   (state\<lparr>cart := Some (pre @ it\<lparr>qty := qty it - q\<rparr> # post)\<rparr>, Inl e)
             | Inr s \<Rightarrow>
                 (case int_str py q of
                    Inl e \<Rightarrow>
                      remove_from_cart_state py state item_name q =
                        (state\<lparr>cart := Some (pre @ it\<lparr>qty := qty it - q, subtotal := s\<rparr> # post)\<rparr>,
                         Inl e)
                  | Inr t \<Rightarrow>
                      remove_from_cart_state py state item_name q =
                        (state\<lparr>cart := Some (pre @ it\<lparr>qty := qty it - q, subtotal := s\<rparr> # post)\<rparr>,
                         Inr (reduced_result item_name t))))"
    unfolding remove_from_cart_state_def loop
    by (simp add: remove_loop_first_match split: sum.splits)
qed

theorem remove_outcomes_witness:
  "get_cart (ali_session\<lparr>cart := Some [\<lparr>name = ''Chicken'', price = Finite 500, qty = 3,
       subtotal = Finite 1500\<rparr>]\<rparr>) =
     [] @ \<lparr>name = ''Chicken'', price = Finite 500, qty = 3, subtotal = Finite 1500\<rparr> # [] \<and>
   matches py64 ''CHICKEN'' \<lparr>name = ''Chicken'', price = Finite 500, qty = 3,
     subtotal = Finite 1500\<rparr> \<and>
   remove_from_cart_state py64
     (ali_session\<lparr>cart := Some [\<lparr>name = ''Chicken'', price = Finite 500, qty = 3,
        subtotal = Finite 1500\<rparr>]\<rparr>) ''CHICKEN'' 1 =
     (ali_session\<lparr>cart := Some [\<lparr>name = ''Chicken'', price = Finite 500, qty = 2,
        subtotal = Finite 1000\<rparr>]\<rparr>,
      Inr (reduced_result ''CHICKEN'' ''1'')) \<and>
   remove_from_cart_state py64
     (ali_session\<lparr>cart := Some [\<lparr>name = ''Chicken'', price = Finite 500, qty = 3,
        subtotal = Finite 1500\<rparr>]\<rparr>) ''CHICKEN'' 5 =
     (ali_session\<lparr>cart := Some []\<rparr>, Inr (removed_result ''CHICKEN'')) \<and>
   remove_from_cart_state py64
     (ali_session\<lparr>cart := Some [\<lparr>name = ''Chicken'', price = Finite 500, qty = 3,
        subtotal = Finite 1500\<rparr>]\<rparr>) ''Beef'' 1 =
     (ali_session\<lparr>cart := Some [\<lparr>name = ''Chicken'', price = Finite 500, qty = 3,
        subtotal = Finite 1500\<rparr>]\<rparr>,
      Inr (not_present_result ''Beef''))"
proof -
  let ?it = "\<lparr>name = ''Chicken'', price = Finite 500, qty = 3, subtotal = Finite 1500\<rparr>"
  let ?st = "ali_session\<lparr>cart := Some [?it]\<rparr>"
  have c: "get_cart ?st = [] @ ?it # []" by simp
  have m: "matches py64 ''CHICKEN'' ?it" by (simp add: matches_def py64_eval)
  have n: "\<not> list_ex (matches py64 ''Beef'') (get_cart ?st)" by (simp add: matches_def py64_eval)
  have p: "int_float_mul py64 (3 - 1) (Finite 500) = Inr (Finite 1000)" by (simp add: py64_eval)
  have s: "int_str py64 1 = Inr ''1''" by (simp add: py64_eval)
  from remove_outcomes [of py64 "''CHICKEN''" ?st 1 "[]" ?it "[]"]
    remove_outcomes [of py64 "''CHICKEN''" ?st 5 "[]" ?it "[]"]
    remove_outcomes [of py64 "''Beef''" ?st 1 "[]" ?it "[]"] c m n p s
  show ?thesis by simp
qed

text \<open>
  Claim C3 at its failing input. A cart built by adding \<open>Chicken\<close> and then \<open>chicken\<close>
  holds two entries (the defect of claim C1). Removing \<open>chicken\<close> with quantity 1 reports
  "Removed", pops the entry named \<open>Chicken\<close>, and leaves the entry named \<open>chicken\<close> in the
  cart: the item is not absent afterwards.
\<close>

theorem remove_case_variant_leaves_item:
  "run_cart_ops py64 ali_session
     [AddItem ''Chicken'' (Finite 500) 1, AddItem ''chicken'' (Finite 500) 1] =
   ([], ali_session\<lparr>cart := Some [\<lparr>name = ''Chicken'', price = Finite 500, qty = 1,
                                     subtotal = Finite 500\<rparr>,
                                    \<lparr>name = ''chicken'', price = Finite 500, qty = 1,
                                     subtotal = Finite 500\<rparr>]\<rparr>) \<and>
   remove_from_cart_state py64
     (ali_session\<lparr>cart := Some [\<lparr>name = ''Chicken'', price = Finite 500, qty = 1,
                                   subtotal = Finite 500\<rparr>,
                                  \<lparr>name = ''chicken'', price = Finite 500, qty = 1,
                                   subtotal = Finite 500\<rparr>]\<rparr>) ''chicken'' 1 =
   (ali_session\<lparr>cart := Some [\<lparr>name = ''chicken'', price = Finite 500, qty = 1,
                                 subtotal = Finite 500\<rparr>]\<rparr>,
    Inr (removed_result ''chicken'')) \<and>
   matches py64 ''chicken'' \<lparr>name = ''chicken'', price = Finite 500, qty = 1,
     subtotal = Finite 500\<rparr>"
  by (simp add: cart_eval matches_def)








section \<open>Checkout\<close>

lemma loops_agree:
  "list_all2 same_row ps ls \<Longrightarrow>
   list_all2 same_row (fst (payload_loop py c ps t)) (fst (summary_loop py c ls t)) \<and>
   snd (payload_loop py c ps t) = snd (summary_loop py c ls t)"
proof (induction c arbitrary: ps ls t)
  case Nil
  then show ?case by simp
next
  case (Cons it rest)
  let ?p = "\<lparr>itemName = name it, item_qty = qty it, item_rate = price it, item_amount = subtotal it\<rparr>"
  let ?l = "\<lparr>line_name = name it, line_qty = qty it, line_rate = price it, line_amount = subtotal it\<rparr>"
  have "same_row ?p ?l" by (simp add: same_row_def)
  with Cons.prems have "list_all2 same_row (ps @ [?p]) (ls @ [?l])"
    by (simp add: list_all2_appendI)
  from Cons.IH [OF this] show ?case by simp
qed

lemma build_payload_summary:
  "list_all2 same_row (items (build_payload py state c pm)) (lines (compute_cart_summary py c)) \<and>
   payload_total (build_payload py state c pm) = summary_total (compute_cart_summary py c)"
  using loops_agree [of "[]" "[]" py c IntZero]
  by (auto simp: build_payload_def compute_cart_summary_def split: prod.splits)

lemma checkout_posted:
  "sessions w (co_session_id req) = Some state \<Longrightarrow> get_cart state \<noteq> [] \<Longrightarrow>
   posted (snd (checkout py cfg bill w req)) =
     posted w @ [\<lparr>json_payload = build_payload py state (get_cart state) (co_paymentMethod req),
                  headers = build_headers cfg\<rparr>]"
  by (simp add: checkout_def Let_def reset_session_later_def split: bill_reply.splits)

text \<open>
  Claim C10. When \<open>checkout\<close> runs on an existing session with a non-empty cart, it posts
  one request whose \<open>total\<close> equals the total of \<open>compute_cart_summary\<close> on the same
  cart and whose item rows carry, position by position, the name, quantity, rate and amount
  of the summary rows.
\<close>

theorem checkout_payload_matches_summary:
  "sessions w (co_session_id req) = Some state \<Longrightarrow> get_cart state \<noteq> [] \<Longrightarrow>
   \<exists>r. posted (snd (checkout py cfg bill w req)) = posted w @ [r] \<and>
       payload_total (json_payload r) = summary_total (compute_cart_summary py (get_cart state)) \<and>
       list_all2 same_row (items (json_payload r))
         (lines (compute_cart_summary py (get_cart state)))"
  using build_payload_summary [of py state "get_cart state" "co_paymentMethod req"]
  by (simp add: checkout_posted)

text \<open>
  Claim C7. \<open>checkout\<close> on an existing session whose cart has no entries raises the 400
  error "Cart is empty." and returns the module state as it was: nothing is posted to the
  billing collaborator, no timer is started and no session changes, whatever the
  collaborator would have answered.
\<close>

theorem checkout_empty_cart:
  "sessions w (co_session_id req) = Some state \<Longrightarrow> get_cart state = [] \<Longrightarrow>
   checkout py cfg bill w req = (Inl (HTTPException 400 (Message ''Cart is empty.'')), w)"
  by (simp add: checkout_def)

theorem checkout_payload_matches_summary_witness:
  "sessions chicken_world (co_session_id cod_request) = Some chicken_session \<and>
   get_cart chicken_session \<noteq> [] \<and>
   summary_total (compute_cart_summary py64 (get_cart chicken_session)) =
     FloatTotal (Finite 1000) \<and>
   (\<exists>r. posted (snd (checkout py64 demo_config (\<lambda>r. Response 200 ''ok'') chicken_world
            cod_request)) = posted chicken_world @ [r] \<and>
        payload_total (json_payload r) = FloatTotal (Finite 1000) \<and>
        list_all2 same_row (items (json_payload r))
          (lines (compute_cart_summary py64 (get_cart chicken_session))))"
proof -
  have s: "sessions chicken_world (co_session_id cod_request) = Some chicken_session"
    by (simp add: chicken_world_def cod_request_def ali_world_def)
  have c: "get_cart chicken_session \<noteq> []"
    by (simp add: chicken_session_def)
  have t: "summary_total (compute_cart_summary py64 (get_cart chicken_session)) =
      FloatTotal (Finite 1000)"
    by (simp add: cart_eval compute_cart_summary_def)
  from checkout_payload_matches_summary
      [OF s c, where py = py64 and cfg = demo_config and bill = "\<lambda>r. Response 200 ''ok''"] s c t
  show ?thesis by simp
qed

theorem checkout_empty_cart_witness:
  "sessions ali_world (co_session_id cod_request) = Some ali_session \<and>
   get_cart ali_session = [] \<and>
   checkout py64 demo_config (\<lambda>r. Response 200 ''ok'') ali_world cod_request =
     (Inl (HTTPException 400 (Message ''Cart is empty.'')), ali_world)"
proof -
  have s: "sessions ali_world (co_session_id cod_request) = Some ali_session"
    by (simp add: cod_request_def ali_world_def)
  have c: "get_cart ali_session = []"
    by (simp add: get_cart_def ali_session_def)
  from checkout_empty_cart [OF s c] s c show ?thesis by simp
qed

text \<open>
  Claim C6, amended. \<open>checkout\<close> on an existing session with a non-empty cart: when the
  collaborator answers with status 200 or 201 the order is reported as placed, the session's
  cart becomes the empty list (every other field and every other session stays) and a
  30 second deletion timer is started for the session; when the post raises, or the status
  is anything else, a 502 error is raised and the sessions and the timers are as before.
\<close>

theorem checkout_outcomes:
  assumes "sessions w (co_session_id req) = Some state" and "get_cart state \<noteq> []"
  shows
    "case bill \<lparr>json_payload = build_payload py state (get_cart state) (co_paymentMethod req),
                headers = build_headers cfg\<rparr> of
       Response status_code body \<Rightarrow>
         if status_code = 200 \<or> status_code = 201
         then fst (checkout py cfg bill w req) =
                Inr \<lparr>co_success = True, co_message = ''Order placed'',
                     bill_api_status = status_code,
                     payload_sent = build_payload py state (get_cart state) (co_paymentMethod req)\<rparr> \<and>
              sessions (snd (checkout py cfg bill w req)) =
                (sessions w)(co_session_id req \<mapsto> state\<lparr>cart := Some []\<rparr>) \<and>
              timers (snd (checkout py cfg bill w req)) = timers w @ [(co_session_id req, 30)]
         else fst (checkout py cfg bill w req) =
                Inl (HTTPException 502 (BillingFailure status_code body)) \<and>
              sessions (snd (checkout py cfg bill w req)) = sessions w \<and>
              timers (snd (checkout py cfg bill w req)) = timers w
     | PostRaises e \<Rightarrow>
         fst (checkout py cfg bill w req) =
           Inl (HTTPException 502 (Message (''Failed to forward to billing API: '' @ e))) \<and>
         sessions (snd (checkout py cfg bill w req)) = sessions w \<and>
         timers (snd (checkout py cfg bill w req)) = timers w"
  using assms
  by (simp add: checkout_def Let_def reset_session_later_def split: bill_reply.splits)

theorem checkout_outcomes_witness:
  "sessions chicken_world (co_session_id cod_request) = Some chicken_session \<and>
   get_cart chicken_session \<noteq> [] \<and>
   sessions (snd (checkout py64 demo_config (\<lambda>r. Response 201 ''ok'') chicken_world cod_request)) =
     (sessions chicken_world)(co_session_id cod_request \<mapsto> chicken_session\<lparr>cart := Some []\<rparr>) \<and>
   timers (snd (checkout py64 demo_config (\<lambda>r. Response 201 ''ok'') chicken_world cod_request)) =
     [(''sess_1700000000000'', 1800), (''sess_1700000000000'', 30)] \<and>
   sessions (snd (checkout py64 demo_config (\<lambda>r. PostRaises ''timeout'') chicken_world
     cod_request)) = sessions chicken_world"
proof -
  have s: "sessions chicken_world (co_session_id cod_request) = Some chicken_session"
    by (simp add: chicken_world_def cod_request_def ali_world_def)
  have c: "get_cart chicken_session \<noteq> []"
    by (simp add: chicken_session_def)
  have t: "timers chicken_world = [(''sess_1700000000000'', 1800)]"
    by (simp add: chicken_world_def ali_world_def)
  from checkout_outcomes
      [OF s c, where py = py64 and bill = "\<lambda>r. Response 201 ''ok''" and cfg = demo_config]
    checkout_outcomes
      [OF s c, where py = py64 and bill = "\<lambda>r. PostRaises ''timeout''" and cfg = demo_config]
    s c t
  show ?thesis by (simp add: cod_request_def)
qed

text \<open>
  The claim as written promises the success path for every 2xx status. Status 204 is
  answered with the 502 error; the cart keeps its entry and no timer is started.
\<close>

theorem checkout_204_counterexample:
  "fst (checkout py64 demo_config (\<lambda>r. Response 204 '''') chicken_world cod_request) =
     Inl (HTTPException 502 (BillingFailure 204 '''')) \<and>
   sessions (snd (checkout py64 demo_config (\<lambda>r. Response 204 '''') chicken_world cod_request))
     ''sess_1700000000000'' = Some chicken_session \<and>
   get_cart chicken_session =
     [\<lparr>name = ''Chicken'', price = Finite 500, qty = 2, subtotal = Finite 1000\<rparr>] \<and>
   timers (snd (checkout py64 demo_config (\<lambda>r. Response 204 '''') chicken_world cod_request)) =
     timers chicken_world"
  by (simp add: world_eval chicken_session_def get_cart_def Let_def)

section \<open>Creating a session\<close>

text \<open>
  \<open>str_int\<close> is injective: the decimal digits are pairwise distinct, and only a negative
  number starts with the minus sign.
\<close>

lemma digits_not_empty: "digits n \<noteq> []"
  by (subst digits.simps) simp

lemma digits_chars: "set (digits n) \<subseteq> set ''0123456789''"
proof (induction n rule: digits.induct)
  case (1 n)
  have d: "\<And>k. k < 10 \<Longrightarrow> ''0123456789'' ! k \<in> set ''0123456789''"
    by (rule nth_mem) simp
  show ?case
  proof (cases "n < 10")
    case True
    with d [of n] show ?thesis by (subst digits.simps) simp
  next
    case False
    with 1 d [of "n mod 10"] show ?thesis by (subst digits.simps) simp
  qed
qed

lemma digit_char_inj:
  assumes "j < 10" and "k < 10" and "''0123456789'' ! j = ''0123456789'' ! k"
  shows "j = k"
proof -
  have "distinct ''0123456789''" by simp
  moreover have "j < length ''0123456789''" and "k < length ''0123456789''"
    using assms by simp_all
  ultimately show ?thesis using assms(3) by (simp only: nth_eq_iff_index_eq)
qed

lemma digits_inj: "digits m = digits n \<Longrightarrow> m = n"
proof (induction m arbitrary: n rule: digits.induct)
  case (1 m)
  show ?case
  proof (cases "m < 10")
    case m: True
    then have dm: "digits m = [''0123456789'' ! m]" by (subst digits.simps) simp
    show ?thesis
    proof (cases "n < 10")
      case True
      then have "digits n = [''0123456789'' ! n]" by (subst digits.simps) simp
      with dm "1.prems" have "''0123456789'' ! m = ''0123456789'' ! n" by simp
      with m True show ?thesis by (rule digit_char_inj)
    next
      case False
      then have "digits n = digits (n div 10) @ [''0123456789'' ! (n mod 10)]"
        by (subst digits.simps) simp
      with dm "1.prems" have "digits (n div 10) = []" by simp
      with digits_not_empty show ?thesis by blast
    qed
  next
    case m: False
    then have dm: "digits m = digits (m div 10) @ [''0123456789'' ! (m mod 10)]"
      by (subst digits.simps) simp
    show ?thesis
    proof (cases "n < 10")
      case True
      then have "digits n = [''0123456789'' ! n]" by (subst digits.simps) simp
      with dm "1.prems" have "digits (m div 10) = []" by simp
      with digits_not_empty show ?thesis by blast
    next
      case False
      then have "digits n = digits (n div 10) @ [''0123456789'' ! (n mod 10)]"
        by (subst digits.simps) simp
      with dm "1.prems" have front_eq: "digits (m div 10) = digits (n div 10)"
        and tail_eq: "''0123456789'' ! (m mod 10) = ''0123456789'' ! (n mod 10)"
        by simp_all
      from m front_eq have "m div 10 = n div 10" by (rule "1.IH")
      moreover have "m mod 10 = n mod 10"
        using tail_eq by (intro digit_char_inj) simp_all
      ultimately show ?thesis by (metis div_mult_mod_eq)
    qed
  qed
qed

lemma digits_no_minus: "digits n \<noteq> CHR ''-'' # s"
proof
  assume "digits n = CHR ''-'' # s"
  then have "CHR ''-'' \<in> set (digits n)" by simp
  with digits_chars [of n] show False by auto
qed

lemma str_int_inj: "str_int i = str_int j \<Longrightarrow> i = j"
proof -
  assume eq: "str_int i = str_int j"
  consider "i < 0" "j < 0" | "i < 0" "0 \<le> j" | "0 \<le> i" "j < 0" | "0 \<le> i" "0 \<le> j"
    by linarith
  then show ?thesis
  proof cases
    case 1
    with eq have "digits (nat (- i)) = digits (nat (- j))" by (simp add: str_int_def)
    then have "nat (- i) = nat (- j)" by (rule digits_inj)
    with 1 show ?thesis by simp
  next
    case 2
    with eq have "digits (nat j) = CHR ''-'' # digits (nat (- i))" by (simp add: str_int_def)
    with digits_no_minus show ?thesis by blast
  next
    case 3
    with eq have "digits (nat i) = CHR ''-'' # digits (nat (- j))" by (simp add: str_int_def)
    with digits_no_minus show ?thesis by blast
  next
    case 4
    with eq have "digits (nat i) = digits (nat j)" by (simp add: str_int_def)
    then have "nat i = nat j" by (rule digits_inj)
    with 4 show ?thesis by simp
  qed
qed

lemma int_str_injective_py64: "int_str_injective py64"
  using str_int_inj
  by (auto simp: int_str_injective_def py64_def limited_str_def split: if_splits)

lemma session_create_Inr:
  assumes "session_create py cfg now now' w req = (Inr resp, w')"
  shows "\<exists>ms t. clock_ms py now = Inr ms \<and> int_str py ms = Inr t \<and>
           session_id resp = ''sess_'' @ t"
    and "sessions w' = (sessions w)(session_id resp \<mapsto>
           \<lparr>created_at = now', user = response_user resp, cart = Some [], categories = None,
            selected_cat = None\<rparr>)"
    and "timers w' = timers w @ [(session_id resp, AUTO_LOGOUT_SECONDS cfg)]"
    and "posted w' = posted w"
  using assms
  by (auto simp: session_create_def Let_def reset_session_later_def
      split: if_splits sum.splits)

text \<open>
  Claim C5, amended. A successful \<open>session_create\<close> returns the id \<open>sess_\<close> followed by
  the formatted value of \<open>int(time.time()*1000)\<close> at its clock reading, assigns to that id a
  new record whose cart is the empty list (every other id keeps its record), and starts the
  auto-logout timer for it. The id is not looked up before the assignment: as different
  ints are formatted differently, two successful creations return the same id exactly when
  \<open>int(time.time()*1000)\<close> gives the same value at their clock readings.
\<close>

theorem session_create_stores_under_time_id:
  assumes "session_create py cfg now now' w req = (Inr resp, w')"
  shows "\<exists>ms t. clock_ms py now = Inr ms \<and> int_str py ms = Inr t \<and>
           session_id resp = ''sess_'' @ t \<and>
           sessions w' = (sessions w)(session_id resp \<mapsto>
             \<lparr>created_at = now', user = response_user resp, cart = Some [], categories = None,
              selected_cat = None\<rparr>) \<and>
           timers w' = timers w @ [(session_id resp, AUTO_LOGOUT_SECONDS cfg)] \<and>
           (int_str_injective py \<longrightarrow>
             (\<forall>cfg2 now2 now2' w2 req2 resp2 w2'.
                session_create py cfg2 now2 now2' w2 req2 = (Inr resp2, w2') \<longrightarrow>
                  (session_id resp2 = session_id resp \<longleftrightarrow> clock_ms py now2 = clock_ms py now)))"
proof -
  from session_create_Inr(1) [OF assms] obtain ms t
    where ms: "clock_ms py now = Inr ms" and t: "int_str py ms = Inr t"
      and id: "session_id resp = ''sess_'' @ t"
    by blast
  have other: "session_id resp2 = session_id resp \<longleftrightarrow> clock_ms py now2 = clock_ms py now"
    if inj: "int_str_injective py"
      and second: "session_create py cfg2 now2 now2' w2 req2 = (Inr resp2, w2')"
    for cfg2 now2 now2' w2 req2 resp2 w2'
  proof -
    from session_create_Inr(1) [OF second] obtain ms2 t2
      where ms2: "clock_ms py now2 = Inr ms2" and t2: "int_str py ms2 = Inr t2"
        and id2: "session_id resp2 = ''sess_'' @ t2"
      by blast
    show ?thesis
    proof
      assume "session_id resp2 = session_id resp"
      with id id2 have "t2 = t" by simp
      with inj t t2 have "ms2 = ms" unfolding int_str_injective_def by blast
      with ms ms2 show "clock_ms py now2 = clock_ms py now" by simp
    next
      assume "clock_ms py now2 = clock_ms py now"
      with ms ms2 have "ms2 = ms" by simp
      with t t2 have "t2 = t" by simp
      with id id2 show "session_id resp2 = session_id resp" by simp
    qed
  qed
  from ms t id session_create_Inr(2,3) [OF assms] other show ?thesis by blast
qed

lemma create_ali:
  "session_create py64 demo_config (Finite 1700000000) (Finite 1700000000) empty_world ali_request =
     (Inr \<lparr>session_id = ''sess_1700000000000'', response_user = user ali_session\<rparr>, ali_world)"
  by (simp add: create_eval world_eval ali_session_def py64_eval)

lemma create_ali_123:
  "session_create py64 demo_config (Finite (7130316800515899 / 4194304))
     (Finite (7130316800515899 / 4194304)) empty_world ali_request =
     (Inr \<lparr>session_id = ''sess_1700000000123'', response_user = user ali_session\<rparr>,
      \<lparr>sessions = [''sess_1700000000123'' \<mapsto>
         ali_session\<lparr>created_at := Finite (7130316800515899 / 4194304)\<rparr>],
       timers = [(''sess_1700000000123'', 1800)], posted = []\<rparr>)"
  by (simp add: create_eval world_eval ali_session_def py64_eval)

theorem session_create_stores_under_time_id_witness:
  "session_create py64 demo_config (Finite (7130316800515899 / 4194304))
     (Finite (7130316800515899 / 4194304)) empty_world ali_request =
     (Inr \<lparr>session_id = ''sess_1700000000123'', response_user = user ali_session\<rparr>,
      \<lparr>sessions = [''sess_1700000000123'' \<mapsto>
         ali_session\<lparr>created_at := Finite (7130316800515899 / 4194304)\<rparr>],
       timers = [(''sess_1700000000123'', 1800)], posted = []\<rparr>) \<and>
   clock_ms py64 (Finite (7130316800515899 / 4194304)) = Inr 1700000000123 \<and>
   int_str py64 1700000000123 = Inr ''1700000000123'' \<and>
   int_str_injective py64 \<and>
   clock_ms py64 (Finite 1700000000) \<noteq> clock_ms py64 (Finite (7130316800515899 / 4194304)) \<and>
   ''sess_1700000000000'' \<noteq> ''sess_1700000000123''"
proof -
  have ms: "clock_ms py64 (Finite (7130316800515899 / 4194304)) = Inr 1700000000123"
    by (simp add: clock_ms_def py64_eval)
  have ms0: "clock_ms py64 (Finite 1700000000) = Inr 1700000000000"
    by (simp add: clock_ms_def py64_eval)
  have t: "int_str py64 1700000000123 = Inr ''1700000000123''"
    by (simp add: py64_eval)
  from session_create_stores_under_time_id [OF create_ali_123] int_str_injective_py64 create_ali
  have "''sess_1700000000000'' = ''sess_1700000000123'' \<longleftrightarrow>
      clock_ms py64 (Finite 1700000000) = clock_ms py64 (Finite (7130316800515899 / 4194304))"
    by fastforce
  with ms ms0 t create_ali_123 int_str_injective_py64 show ?thesis by simp
qed

text \<open>
  The claim as written promises an id distinct from every id in the store. A creation at
  the clock reading at which Ali's session was created returns Ali's id, and the record
  stored under it, whose cart held an entry, is replaced by the new user's record.
\<close>

theorem session_create_same_ms_counterexample:
  "session_create py64 demo_config (Finite 1700000000) (Finite 1700000000) empty_world ali_request =
     (Inr \<lparr>session_id = ''sess_1700000000000'', response_user = user ali_session\<rparr>, ali_world) \<and>
   sessions chicken_world ''sess_1700000000000'' = Some chicken_session \<and>
   get_cart chicken_session =
     [\<lparr>name = ''Chicken'', price = Finite 500, qty = 2, subtotal = Finite 1000\<rparr>] \<and>
   fst (session_create py64 demo_config (Finite 1700000000) (Finite 1700000000) chicken_world
          sara_request) =
     Inr \<lparr>session_id = ''sess_1700000000000'',
          response_user = [''name'' \<mapsto> ''Sara'', ''mobile'' \<mapsto> ''+923111234567'',
            ''address'' \<mapsto> ''Flat 9'']\<rparr> \<and>
   sessions (snd (session_create py64 demo_config (Finite 1700000000) (Finite 1700000000)
       chicken_world sara_request)) ''sess_1700000000000'' =
     Some \<lparr>created_at = Finite 1700000000,
           user = [''name'' \<mapsto> ''Sara'', ''mobile'' \<mapsto> ''+923111234567'', ''address'' \<mapsto> ''Flat 9''],
           cart = Some [], categories = None, selected_cat = None\<rparr>"
  by (simp add: create_eval world_eval ali_session_def chicken_session_def get_cart_def py64_eval)

section \<open>Resetting a session and stale timers\<close>

text \<open>
  Claim C4 at its failing input. The store holds Ali's session and the request body carries
  its id; \<open>session_reset\<close> answers \<open>reset: false\<close> and the store is as it was, because
  \<open>body\<close> is the coroutine object and not a dict.
\<close>

theorem session_reset_leaves_session:
  "sessions ali_world ''sess_1700000000000'' = Some ali_session \<and>
   json_body reset_request = PyDict [(''session_id'', PyStr ''sess_1700000000000'')] \<and>
   session_reset ali_world reset_request = (Inr False, ali_world)"
  by (simp add: session_reset_def session_reset_body_def request_json_def reset_request_def
      ali_world_def)

text \<open>
  The same holds for every store and every request: the handler never removes a session.
\<close>

theorem session_reset_never_removes: "session_reset w r = (Inr False, w)"
  by (simp add: session_reset_def session_reset_body_def request_json_def)

text \<open>
  Had \<open>body\<close> been the parsed document, the rest of the handler would do what is asked of
  a reset: for a dict carrying a string id it removes the session and answers true when the
  id is in the store, and answers false without touching the store when it is not.
\<close>

theorem session_reset_body_on_dict:
  "session_reset_body w (PyDict [(''session_id'', PyStr s)]) =
     (if s \<noteq> [] \<and> s \<in> dom (sessions w)
      then (Inr True, w\<lparr>sessions := (sessions w)(s := None)\<rparr>)
      else (Inr False, w))"
  by (auto simp: session_reset_body_def Let_def)

text \<open>
  A timer that fires after its session is gone changes nothing: \<open>pop\<close> with a default is
  idempotent.
\<close>

theorem timer_worker_idempotent:
  "timer_worker (timer_worker w sid) sid = timer_worker w sid"
  by (simp add: timer_worker_def)

end
